theory Spec2Isabelle
  imports Complex_Main
begin

section \<open>Values that cross the HTTP boundary\<close>

text \<open>
  Express hands a query parameter to the handler as a string, an array or a nested
  object; the casts \<^verbatim>\<open>as string\<close> of \<^verbatim>\<open>index.ts\<close> are erased at run time, so the
  handlers see all three shapes. A parameter that is not given is \<open>None\<close>
  (\<^verbatim>\<open>undefined\<close>).
\<close>

datatype query_value =
    QString string
  | QArray "query_value list"
  | QObject "(string \<times> query_value) list"

text \<open>Truthiness, as \<^verbatim>\<open>&&\<close> and \<^verbatim>\<open>if\<close> test it: only the empty string and
  \<^verbatim>\<open>undefined\<close> are falsy here.\<close>

fun truthy :: "query_value option \<Rightarrow> bool" where
  "truthy None = False"
| "truthy (Some (QString s)) = (s \<noteq> [])"
| "truthy (Some (QArray xs)) = True"
| "truthy (Some (QObject kvs)) = True"

fun join_comma :: "string list \<Rightarrow> string" where
  "join_comma [] = []"
| "join_comma [s] = s"
| "join_comma (s # t # ss) = s @ '','' @ join_comma (t # ss)"

text \<open>The property key that \<^verbatim>\<open>transports[sessionId]\<close> reads: the value converted to a
  string (an array joins its elements with commas).\<close>

fun to_string :: "query_value \<Rightarrow> string" where
  "to_string (QString s) = s"
| "to_string (QArray xs) = join_comma (map to_string xs)"
| "to_string (QObject kvs) = ''[object Object]''"

fun property_key :: "query_value option \<Rightarrow> string" where
  "property_key None = ''undefined''"
| "property_key (Some v) = to_string v"

text \<open>A thrown value: an \<^verbatim>\<open>Error\<close> object with its message, or a bare string.\<close>

datatype thrown = Error string | Thrown_string string

text \<open>\<^verbatim>\<open>err instanceof Error ? err.message : err\<close>\<close>

fun error_text :: "thrown \<Rightarrow> string" where
  "error_text (Error m) = m"
| "error_text (Thrown_string s) = s"

datatype json = JString string | JCount nat | JNumber real

datatype body = Text string | Json "(string \<times> json) list"

record http_response =
  status_code :: nat
  body :: body

text \<open>Header values reach the handler decoded one character per byte, so
  \<^verbatim>\<open>String.prototype.trim\<close> strips the ASCII white space and the no-break space.\<close>

definition js_whitespace :: "char \<Rightarrow> bool" where
  "js_whitespace c \<longleftrightarrow>
     c \<in> set [CHR 0x09, CHR 0x0A, CHR 0x0B, CHR 0x0C, CHR 0x0D, CHR 0x20, CHR 0xA0]"

definition trim :: "string \<Rightarrow> string" where
  "trim s = rev (dropWhile js_whitespace (rev (dropWhile js_whitespace s)))"

definition startsWith :: "string \<Rightarrow> string \<Rightarrow> bool" where
  "startsWith s p \<longleftrightarrow> take (length p) s = p"

definition slice :: "string \<Rightarrow> nat \<Rightarrow> string" where
  "slice s n = drop n s"

section \<open>The session registry \<^verbatim>\<open>transports\<close>\<close>

text \<open>
  A transport holds its endpoint, the response it streams on (a handle) and the session
  id its constructor generates; \<open>new_transport sid r\<close> is what
  \<^verbatim>\<open>new SSEServerTransport("/messages", res)\<close> returns.
\<close>

record transport =
  sessionId :: string
  endpoint :: string
  res :: nat

abbreviation new_transport :: "string \<Rightarrow> nat \<Rightarrow> transport" where
  "new_transport sid r \<equiv> \<lparr>sessionId = sid, endpoint = ''/messages'', res = r\<rparr>"

record transport_payload =
  transport :: transport
  currentJwt :: string

text \<open>
  \<^verbatim>\<open>let transports: Record<string, TransportPayload> = {}\<close> is an ordinary object: its
  own properties, in insertion order, and its prototype. The prototype is
  \<^verbatim>\<open>Object.prototype\<close> (\<open>None\<close>) until an assignment to the key \<^verbatim>\<open>__proto__\<close>
  replaces it by the assigned payload object. The session ids the transport generates
  are UUIDs, so the own keys enumerate in insertion order.
\<close>

record transports_object =
  own :: "(string \<times> transport_payload) list"
  proto :: "transport_payload option"

definition empty_transports :: transports_object where
  "empty_transports = \<lparr>own = [], proto = None\<rparr>"

text \<open>The property names every object inherits from \<^verbatim>\<open>Object.prototype\<close>.\<close>

definition object_prototype_keys :: "string list" where
  "object_prototype_keys =
     [''constructor'', ''__defineGetter__'', ''__defineSetter__'', ''hasOwnProperty'',
      ''__lookupGetter__'', ''__lookupSetter__'', ''isPrototypeOf'',
      ''propertyIsEnumerable'', ''toString'', ''valueOf'', ''__proto__'',
      ''toLocaleString'']"

text \<open>
  What \<^verbatim>\<open>transports[key]\<close> evaluates to: \<^verbatim>\<open>undefined\<close>, a payload, or some other value
  found along the prototype chain (a built-in function, \<^verbatim>\<open>Object.prototype\<close>, a
  transport, a token string), of which only the truthiness matters; none of those
  has a \<^verbatim>\<open>transport\<close> property.
\<close>

datatype property_value = Undefined | Payload transport_payload | Other bool

fun truthy_value :: "property_value \<Rightarrow> bool" where
  "truthy_value Undefined = False"
| "truthy_value (Payload p) = True"
| "truthy_value (Other b) = b"

definition get_property :: "transports_object \<Rightarrow> string \<Rightarrow> property_value" where
  "get_property ts key =
     (case map_of (own ts) key of
        Some p \<Rightarrow> Payload p
      | None \<Rightarrow>
          (case proto ts of
             None \<Rightarrow> if key \<in> set object_prototype_keys then Other True else Undefined
           | Some p \<Rightarrow>
               if key = ''__proto__'' then Payload p
               else if key = ''transport'' then Other True
               else if key = ''currentJwt'' then Other (currentJwt p \<noteq> [])
               else if key \<in> set object_prototype_keys then Other True
               else Undefined))"

fun assign_own ::
  "string \<Rightarrow> transport_payload \<Rightarrow> (string \<times> transport_payload) list \<Rightarrow>
   (string \<times> transport_payload) list" where
  "assign_own key v [] = [(key, v)]"
| "assign_own key v ((k, w) # kvs) =
     (if k = key then (key, v) # kvs else (k, w) # assign_own key v kvs)"

text \<open>\<^verbatim>\<open>transports[key] = v\<close>\<close>

definition set_property ::
  "string \<Rightarrow> transport_payload \<Rightarrow> transports_object \<Rightarrow> transports_object" where
  "set_property key v ts =
     (if key = ''__proto__'' then ts\<lparr>proto := Some v\<rparr>
      else ts\<lparr>own := assign_own key v (own ts)\<rparr>)"

text \<open>\<^verbatim>\<open>delete transports[key]\<close>: removes an own property, and is a no-op without one.\<close>

definition delete_property :: "string \<Rightarrow> transports_object \<Rightarrow> transports_object" where
  "delete_property key ts = ts\<lparr>own := filter (\<lambda>kv. fst kv \<noteq> key) (own ts)\<rparr>"

text \<open>\<^verbatim>\<open>Object.keys(transports)\<close> and \<^verbatim>\<open>Object.values(transports)\<close>\<close>

definition object_keys :: "transports_object \<Rightarrow> string list" where
  "object_keys ts = map fst (own ts)"

definition object_values :: "transports_object \<Rightarrow> transport_payload list" where
  "object_values ts = map snd (own ts)"

section \<open>Collaborators outside \<^verbatim>\<open>index.ts\<close>\<close>

text \<open>
  \<^verbatim>\<open>envs\<close>, \<^verbatim>\<open>integrations\<close> and \<^verbatim>\<open>extraTools\<close> are fixed when the module is loaded; the
  handlers only read them.
\<close>

record server_context =
  NODE_ENV :: string
  integrations :: "string list"
  extraTools :: "string list"

text \<open>Modelled from the spec: \<^verbatim>\<open>signJwt\<close> of \<^verbatim>\<open>./utils\<close> and the decoding that reads a
  token back are not among the sources, so the handlers take them as the parameters
  \<open>signJwt\<close> (the token minted for a \<^verbatim>\<open>userId\<close>) and \<open>decode_sub\<close>
  (\<^verbatim>\<open>jwt.decode(token)?.sub\<close>, \<open>None\<close> for \<^verbatim>\<open>undefined\<close>). The spec's TokenCodec signs
  a token "encoding at least a userId claim" that decoding recovers without
  verification; \<open>encodes_user\<close> states this for one user id.
\<close>

definition encodes_user ::
  "(query_value \<Rightarrow> string) \<Rightarrow> (string \<Rightarrow> query_value option) \<Rightarrow> query_value \<Rightarrow> bool" where
  "encodes_user signJwt decode_sub u \<longleftrightarrow> decode_sub (signJwt u) = Some u"

section \<open>\<^verbatim>\<open>GET /sse\<close>\<close>

record sse_request =
  authorization :: "string option"
  user :: "query_value option"

text \<open>Lines 57 to 66: the token of the session, or \<open>None\<close> where the handler answers 401.\<close>

definition development_user ::
  "server_context \<Rightarrow> (query_value \<Rightarrow> string) \<Rightarrow> sse_request \<Rightarrow> string option" where
  "development_user ctx signJwt req =
     (case user req of
        None \<Rightarrow> None
      | Some u \<Rightarrow>
          if NODE_ENV ctx = ''development'' \<and> truthy (Some u) then Some (signJwt u) else None)"

definition credential ::
  "server_context \<Rightarrow> (query_value \<Rightarrow> string) \<Rightarrow> sse_request \<Rightarrow> string option" where
  "credential ctx signJwt req =
     (case authorization req of
        None \<Rightarrow> development_user ctx signJwt req
      | Some header \<Rightarrow>
          if header \<noteq> [] \<and> startsWith header ''Bearer ''
          then Some (trim (slice header 7))
          else development_user ctx signJwt req)"

text \<open>The list logged as "Connected clients:": every own key with the decoded
  \<^verbatim>\<open>sub\<close> of its token.\<close>

definition connected_clients ::
  "(string \<Rightarrow> query_value option) \<Rightarrow> transports_object \<Rightarrow> (string \<times> query_value option) list" where
  "connected_clients decode_sub ts =
     map (\<lambda>kv. (fst kv, decode_sub (currentJwt (snd kv)))) (own ts)"

datatype sse_result =
    Responded http_response
  | Streaming transport "(string \<times> query_value option) list"

text \<open>
  The handler. \<open>new_id\<close> is the session id the transport's constructor generates and
  \<open>res_handle\<close> names the response object. On success the transport is registered,
  the connected clients are logged and the transport is bound to the protocol server.
\<close>

definition sse_handler ::
  "server_context \<Rightarrow> (query_value \<Rightarrow> string) \<Rightarrow> (string \<Rightarrow> query_value option) \<Rightarrow>
   sse_request \<Rightarrow> string \<Rightarrow> nat \<Rightarrow> transports_object \<Rightarrow> transports_object \<times> sse_result" where
  "sse_handler ctx signJwt decode_sub req new_id res_handle transports =
     (case credential ctx signJwt req of
        None \<Rightarrow> (transports, Responded \<lparr>status_code = 401, body = Text ''Unauthorized''\<rparr>)
      | Some token \<Rightarrow>
          (let t = new_transport new_id res_handle;
               transports' = set_property (sessionId t) \<lparr>transport = t, currentJwt = token\<rparr> transports
           in (transports', Streaming t (connected_clients decode_sub transports'))))"

text \<open>The hook registered by \<^verbatim>\<open>res.on("close", ...)\<close> for the session \<open>sid\<close>.\<close>

definition on_close :: "string \<Rightarrow> transports_object \<Rightarrow> transports_object" where
  "on_close sid transports = delete_property sid transports"

section \<open>\<^verbatim>\<open>POST /messages\<close>\<close>

text \<open>
  What \<^verbatim>\<open>transport.handlePostMessage(req, res)\<close> did when it settled: whether it has
  written the response head (\<^verbatim>\<open>res.headersSent\<close>) and what it threw, if anything.
\<close>

record post_outcome =
  headersSent :: bool
  raised :: "thrown option"

text \<open>Reading \<^verbatim>\<open>handlePostMessage\<close> of a value without a \<^verbatim>\<open>transport\<close> property throws
  this \<^verbatim>\<open>TypeError\<close> before anything is written.\<close>

definition undefined_transport :: post_outcome where
  "undefined_transport =
     \<lparr>headersSent = False,
      raised = Some (Error (''Cannot read properties of undefined (reading ''
                            @ [CHR 0x27] @ ''handlePostMessage'' @ [CHR 0x27] @ '')''))\<rparr>"

record messages_result =
  delegated :: "transport list"
  sent :: "http_response list"

definition no_transport_found :: http_response where
  "no_transport_found =
     \<lparr>status_code = 404, body = Json [(''error'', JString ''No transport found for sessionId'')]\<rparr>"

text \<open>\<^verbatim>\<open>transportPayload.transport.handlePostMessage(req, res)\<close>: the transports called
  and how the call ended.\<close>

definition delegate ::
  "(transport \<Rightarrow> post_outcome) \<Rightarrow> property_value \<Rightarrow> transport list \<times> post_outcome" where
  "delegate handlePostMessage transportPayload =
     (case transportPayload of
        Payload p \<Rightarrow> ([transport p], handlePostMessage (transport p))
      | _ \<Rightarrow> ([], undefined_transport))"

text \<open>
  The \<^verbatim>\<open>if\<close> block of lines 92 to 100: the responses the handler sends when the block
  returns, or \<open>None\<close> when control leaves the block without returning. The \<^verbatim>\<open>try\<close>
  returns what the transport did; the \<^verbatim>\<open>catch\<close> returns a 500 only where the response
  head is not yet sent, and has no other statement.
\<close>

definition guarded_delegation ::
  "(transport \<Rightarrow> post_outcome) \<Rightarrow> query_value option \<Rightarrow> property_value \<Rightarrow>
   transport list \<times> http_response list option" where
  "guarded_delegation handlePostMessage session_id transportPayload =
     (if truthy session_id \<and> truthy_value transportPayload then
        (let (called, outcome) = delegate handlePostMessage transportPayload in
         case raised outcome of
           None \<Rightarrow> (called, Some [])
         | Some err \<Rightarrow>
             if \<not> headersSent outcome
             then (called, Some [\<lparr>status_code = 500, body = Text (error_text err)\<rparr>])
             else (called, None))
      else ([], None))"

text \<open>
  The handler; \<open>session_id\<close> is \<^verbatim>\<open>req.query.sessionId\<close>. \<open>delegated\<close> lists the
  transports whose \<^verbatim>\<open>handlePostMessage\<close> was called, \<open>sent\<close> the responses the handler
  itself sends on \<^verbatim>\<open>res\<close> (its calls of \<^verbatim>\<open>res.status(...)\<close> with \<^verbatim>\<open>send\<close> or \<^verbatim>\<open>json\<close>),
  in order. Where the \<^verbatim>\<open>if\<close> block does not return, lines 102 and 103 run.
\<close>

definition messages_handler ::
  "(transport \<Rightarrow> post_outcome) \<Rightarrow> query_value option \<Rightarrow> transports_object \<Rightarrow>
   transports_object \<times> messages_result" where
  "messages_handler handlePostMessage session_id transports =
     (let transportPayload = get_property transports (property_key session_id);
          (called, returned) = guarded_delegation handlePostMessage session_id transportPayload
      in case returned of
           Some responses \<Rightarrow> (transports, \<lparr>delegated = called, sent = responses\<rparr>)
         | None \<Rightarrow> (transports, \<lparr>delegated = called, sent = [no_transport_found]\<rparr>))"

section \<open>\<^verbatim>\<open>GET /health\<close>\<close>

text \<open>\<open>now\<close> is \<^verbatim>\<open>new Date().toISOString()\<close> and \<open>up\<close> is \<^verbatim>\<open>process.uptime()\<close>.\<close>

definition health_handler ::
  "server_context \<Rightarrow> string \<Rightarrow> real \<Rightarrow> transports_object \<Rightarrow> transports_object \<times> http_response" where
  "health_handler ctx now up transports =
     (let healthStatus =
            [(''status'', JString ''healthy''),
             (''timestamp'', JString now),
             (''uptime'', JNumber up),
             (''version'', JString ''1.0.0''),
             (''environment'', JString (NODE_ENV ctx)),
             (''activeConnections'', JCount (length (object_keys transports))),
             (''integrations'', JCount (length (integrations ctx))),
             (''tools'', JCount (length (extraTools ctx)))]
      in (transports, \<lparr>status_code = 200, body = Json healthStatus\<rparr>))"

section \<open>\<^verbatim>\<open>handleShutdown\<close>\<close>

text \<open>\<^verbatim>\<open>for (const key in transports)\<close> visits the own keys and the enumerable keys
  inherited from a payload that became the prototype.\<close>

definition for_in_keys :: "transports_object \<Rightarrow> string list" where
  "for_in_keys ts =
     object_keys ts @
     (case proto ts of
        None \<Rightarrow> []
      | Some p \<Rightarrow> filter (\<lambda>k. k \<notin> set (object_keys ts)) [''transport'', ''currentJwt''])"

definition delete_all :: "transports_object \<Rightarrow> transports_object" where
  "delete_all ts = fold delete_property (for_in_keys ts) ts"

text \<open>The three places that write \<^verbatim>\<open>transports\<close>: the assignment of line 69, the
  \<^verbatim>\<open>delete\<close> of the close hook, and the loop that empties the object at shutdown.\<close>

datatype registry_op = Connect string transport_payload | Disconnect string | Drain

fun apply_op :: "transports_object \<Rightarrow> registry_op \<Rightarrow> transports_object" where
  "apply_op ts (Connect sid p) = set_property sid p ts"
| "apply_op ts (Disconnect sid) = on_close sid ts"
| "apply_op ts Drain = delete_all ts"

definition run :: "registry_op list \<Rightarrow> transports_object" where
  "run ops = foldl apply_op empty_transports ops"

datatype process_end = Exit int | Unhandled_rejection thrown

record shutdown_result =
  close_calls :: "transport list"
  server_closed :: bool
  ended :: process_end

text \<open>
  \<open>close t\<close> is how \<^verbatim>\<open>t.close()\<close> settles (\<open>None\<close>: it resolves) and \<open>server_close\<close> how
  \<^verbatim>\<open>server.close()\<close> does. \<^verbatim>\<open>map\<close> calls \<^verbatim>\<open>close\<close> on every value before anything is
  awaited; \<^verbatim>\<open>Promise.all\<close> rejects with the first failure, and then the \<^verbatim>\<open>await\<close>
  throws out of the handler: nothing after it runs. \<open>during\<close> lists the writes to
  \<^verbatim>\<open>transports\<close> that other handlers and close hooks perform while this handler is
  suspended in its two \<^verbatim>\<open>await\<close>s.
\<close>

definition handleShutdown ::
  "(transport \<Rightarrow> thrown option) \<Rightarrow> thrown option \<Rightarrow> registry_op list \<Rightarrow> transports_object \<Rightarrow>
   transports_object \<times> shutdown_result" where
  "handleShutdown close server_close during transports =
     (let calls = map transport (object_values transports) in
      case List.map_filter close calls of
        err # _ \<Rightarrow>
          (transports,
           \<lparr>close_calls = calls, server_closed = False, ended = Unhandled_rejection err\<rparr>)
      | [] \<Rightarrow>
          (let transports' = foldl apply_op transports during in
           case server_close of
             Some err \<Rightarrow>
               (transports',
                \<lparr>close_calls = calls, server_closed = False, ended = Unhandled_rejection err\<rparr>)
           | None \<Rightarrow>
               (delete_all transports',
                \<lparr>close_calls = calls, server_closed = True, ended = Exit 0\<rparr>)))"

section \<open>Counting sessions along a sequence\<close>

text \<open>
  The bookkeeping of the registry invariant, in the words of the specification and
  independent of the registry itself: \<open>connected_ids\<close> lists the sessions connected by
  a sequence, \<open>removed_ids\<close> those disconnected or drained (\<open>seen\<close> holds the ids
  connected so far, which a drain removes). \<open>generated_from\<close> says that the ids are
  as the transport generates them, each new and none of them \<^verbatim>\<open>__proto__\<close>, and that
  a close hook fires only for a session that was connected.
\<close>

fun connected_ids :: "registry_op list \<Rightarrow> string list" where
  "connected_ids [] = []"
| "connected_ids (Connect sid p # ops) = sid # connected_ids ops"
| "connected_ids (Disconnect sid # ops) = connected_ids ops"
| "connected_ids (Drain # ops) = connected_ids ops"

fun removed_ids :: "string list \<Rightarrow> registry_op list \<Rightarrow> string list" where
  "removed_ids seen [] = []"
| "removed_ids seen (Connect sid p # ops) = removed_ids (sid # seen) ops"
| "removed_ids seen (Disconnect sid # ops) = sid # removed_ids seen ops"
| "removed_ids seen (Drain # ops) = seen @ removed_ids seen ops"

fun generated_from :: "string list \<Rightarrow> registry_op list \<Rightarrow> bool" where
  "generated_from seen [] = True"
| "generated_from seen (Connect sid p # ops) =
     (sid \<notin> set seen \<and> sid \<noteq> ''__proto__'' \<and> generated_from (sid # seen) ops)"
| "generated_from seen (Disconnect sid # ops) = (sid \<in> set seen \<and> generated_from seen ops)"
| "generated_from seen (Drain # ops) = generated_from seen ops"

section \<open>Properties of the registry operations\<close>

lemma own_delete_property [simp]:
  "own (delete_property key ts) = filter (\<lambda>kv. fst kv \<noteq> key) (own ts)"
  by (simp add: delete_property_def)

lemma proto_delete_property [simp]: "proto (delete_property key ts) = proto ts"
  by (simp add: delete_property_def)

lemma own_fold_delete:
  "own (fold delete_property ks ts) = filter (\<lambda>kv. fst kv \<notin> set ks) (own ts)"
  by (induction ks arbitrary: ts) (auto intro: filter_cong)

lemma proto_fold_delete: "proto (fold delete_property ks ts) = proto ts"
  by (induction ks arbitrary: ts) auto

lemma own_delete_all: "own (delete_all ts) = []"
  by (auto simp: delete_all_def own_fold_delete for_in_keys_def object_keys_def filter_empty_conv)

lemma proto_delete_all: "proto (delete_all ts) = proto ts"
  by (simp add: delete_all_def proto_fold_delete)

lemma delete_absent:
  "key \<notin> set (object_keys ts) \<Longrightarrow> delete_property key ts = ts"
proof -
  assume "key \<notin> set (object_keys ts)"
  then have "filter (\<lambda>kv. fst kv \<noteq> key) (own ts) = own ts"
    by (auto simp: object_keys_def filter_id_conv)
  then show ?thesis by (simp add: delete_property_def)
qed

lemma map_of_assign_own: "map_of (assign_own key v kvs) key = Some v"
  by (induction kvs) auto

lemma assign_own_member: "(key, v) \<in> set (assign_own key v kvs)"
  by (induction kvs) auto

lemma keys_assign_own:
  "map fst (assign_own key v kvs) =
     (if key \<in> fst ` set kvs then map fst kvs else map fst kvs @ [key])"
  by (induction kvs) force+

lemma keys_set_property:
  "sid \<noteq> ''__proto__'' \<Longrightarrow> sid \<notin> set (object_keys ts) \<Longrightarrow>
   object_keys (set_property sid p ts) = object_keys ts @ [sid]"
  by (simp add: set_property_def object_keys_def keys_assign_own)

lemma keys_on_close: "object_keys (on_close sid ts) = filter (\<lambda>k. k \<noteq> sid) (object_keys ts)"
  by (simp add: on_close_def object_keys_def delete_property_def filter_map comp_def)

lemma keys_delete_all: "object_keys (delete_all ts) = []"
  by (simp add: object_keys_def own_delete_all)

lemma connected_clients_member:
  "(key, p) \<in> set (own ts) \<Longrightarrow>
   (key, decode_sub (currentJwt p)) \<in> set (connected_clients decode_sub ts)"
  by (force simp: connected_clients_def)

lemma map_filter_all_None:
  "\<forall>x \<in> set xs. f x = None \<Longrightarrow> List.map_filter f xs = []"
  by (induction xs) (simp_all add: List.map_filter_def)

lemma shutdown_close_calls:
  "close_calls (snd (handleShutdown close server_close during ts)) =
     map transport (object_values ts)"
  by (simp add: handleShutdown_def Let_def split: list.splits option.splits)

lemma shutdown_exit_empties:
  "ended (snd (handleShutdown close server_close during ts)) = Exit 0 \<Longrightarrow>
   own (fst (handleShutdown close server_close during ts)) = []"
  by (auto simp: handleShutdown_def Let_def own_delete_all split: list.splits option.splits)

section \<open>Admission at \<^verbatim>\<open>GET /sse\<close>\<close>

lemma startsWith_append [simp]: "startsWith (p @ s) p"
  by (simp add: startsWith_def)

lemma credential_bearer:
  "authorization req = Some (''Bearer '' @ tok) \<Longrightarrow> credential ctx signJwt req = Some (trim tok)"
  using startsWith_append [of "''Bearer ''" tok] by (simp add: credential_def slice_def)

lemma credential_no_bearer:
  "\<forall>h. authorization req = Some h \<longrightarrow> \<not> startsWith h ''Bearer '' \<Longrightarrow>
   credential ctx signJwt req = development_user ctx signJwt req"
  by (simp add: credential_def split: option.splits)

text \<open>
  C1 (as amended): a request with no \<^verbatim>\<open>Authorization\<close> header that starts with
  \<^verbatim>\<open>Bearer \<close>, and which is not a development-mode request with a truthy \<^verbatim>\<open>user\<close>
  parameter, is answered 401 with the plain text \<^verbatim>\<open>Unauthorized\<close>; no session is
  created and the registry is returned as it was. A header that does start with
  \<^verbatim>\<open>Bearer \<close> is admitted whatever follows: the trimmed remainder is stored as the
  session's token. The handler has no access to a verifier, so nothing it does can
  depend on whether a signature verifies.
\<close>

theorem sse_unauthorized:
  "((\<forall>h. authorization req = Some h \<longrightarrow> \<not> startsWith h ''Bearer '')
      \<and> \<not> (NODE_ENV ctx = ''development'' \<and> truthy (user req))
     \<longrightarrow> sse_handler ctx signJwt decode_sub req new_id r ts =
           (ts, Responded \<lparr>status_code = 401, body = Text ''Unauthorized''\<rparr>))
   \<and> (authorization req = Some (''Bearer '' @ tok)
     \<longrightarrow> fst (sse_handler ctx signJwt decode_sub req new_id r ts) =
           set_property new_id
             \<lparr>transport = new_transport new_id r, currentJwt = trim tok\<rparr> ts)"
proof (intro conjI impI)
  assume a: "(\<forall>h. authorization req = Some h \<longrightarrow> \<not> startsWith h ''Bearer '')
      \<and> \<not> (NODE_ENV ctx = ''development'' \<and> truthy (user req))"
  then have "credential ctx signJwt req = development_user ctx signJwt req"
    by (simp add: credential_no_bearer)
  also from a have "\<dots> = None"
    by (auto simp: development_user_def split: option.splits)
  finally show "sse_handler ctx signJwt decode_sub req new_id r ts =
           (ts, Responded \<lparr>status_code = 401, body = Text ''Unauthorized''\<rparr>)"
    by (simp add: sse_handler_def)
next
  assume "authorization req = Some (''Bearer '' @ tok)"
  then have "credential ctx signJwt req = Some (trim tok)"
    by (rule credential_bearer)
  then show "fst (sse_handler ctx signJwt decode_sub req new_id r ts) =
           set_property new_id
             \<lparr>transport = new_transport new_id r, currentJwt = trim tok\<rparr> ts"
    by (simp add: sse_handler_def Let_def)
qed

text \<open>A \<^verbatim>\<open>Basic\<close> header outside development mode is refused; a \<^verbatim>\<open>Bearer\<close> header is
  admitted with its token trimmed.\<close>

theorem sse_unauthorized_witness:
  "\<not> startsWith ''Basic abc'' ''Bearer ''
   \<and> NODE_ENV \<lparr>NODE_ENV = ''production'', integrations = [], extraTools = []\<rparr> \<noteq> ''development''
   \<and> sse_handler \<lparr>NODE_ENV = ''production'', integrations = [], extraTools = []\<rparr>
        to_string (Some \<circ> QString)
        \<lparr>authorization = Some ''Basic abc'', user = Some (QString ''alice'')\<rparr> ''s1'' 1 empty_transports
      = (empty_transports, Responded \<lparr>status_code = 401, body = Text ''Unauthorized''\<rparr>)
   \<and> fst (sse_handler \<lparr>NODE_ENV = ''production'', integrations = [], extraTools = []\<rparr>
        to_string (Some \<circ> QString)
        \<lparr>authorization = Some (''Bearer '' @ '' tok ''), user = None\<rparr> ''s1'' 1 empty_transports)
      = \<lparr>own = [(''s1'', \<lparr>transport = new_transport ''s1'' 1, currentJwt = ''tok''\<rparr>)], proto = None\<rparr>"
  using sse_unauthorized [where ctx = "\<lparr>NODE_ENV = ''production'', integrations = [], extraTools = []\<rparr>"
      and req = "\<lparr>authorization = Some ''Basic abc'', user = Some (QString ''alice'')\<rparr>"
      and signJwt = to_string and decode_sub = "Some \<circ> QString" and new_id = "''s1''" and r = 1
      and ts = empty_transports]
    sse_unauthorized [where ctx = "\<lparr>NODE_ENV = ''production'', integrations = [], extraTools = []\<rparr>"
      and req = "\<lparr>authorization = Some (''Bearer '' @ '' tok ''), user = None\<rparr>" and tok = "'' tok ''"
      and signJwt = to_string and decode_sub = "Some \<circ> QString" and new_id = "''s1''" and r = 1
      and ts = empty_transports]
  by (simp add: startsWith_def set_property_def empty_transports_def trim_def js_whitespace_def)

text \<open>
  C1 as stated fails: outside development mode, a request whose header is
  \<^verbatim>\<open>Bearer forged\<close> (not even the three segments of a signed token) is not answered
  401; the session is registered under the generated id with \<^verbatim>\<open>forged\<close> as its token
  and the stream is opened.
\<close>

theorem sse_unverified_bearer_counterexample:
  "sse_handler \<lparr>NODE_ENV = ''production'', integrations = [], extraTools = []\<rparr>
     to_string (map_of [])
     \<lparr>authorization = Some ''Bearer forged'', user = None\<rparr>
     ''6fa459ea-ee8a-4ca4-894e-db77e160355e'' 1 empty_transports
   = (\<lparr>own = [(''6fa459ea-ee8a-4ca4-894e-db77e160355e'',
               \<lparr>transport = new_transport ''6fa459ea-ee8a-4ca4-894e-db77e160355e'' 1, currentJwt = ''forged''\<rparr>)],
       proto = None\<rparr>,
      Streaming (new_transport ''6fa459ea-ee8a-4ca4-894e-db77e160355e'' 1)
        [(''6fa459ea-ee8a-4ca4-894e-db77e160355e'', None)])"
  by (simp add: sse_handler_def credential_def startsWith_def slice_def trim_def
      js_whitespace_def set_property_def empty_transports_def connected_clients_def Let_def)

text \<open>
  C7: without an \<^verbatim>\<open>Authorization\<close> header and outside development mode the request is
  answered 401. The same request in development mode with \<^verbatim>\<open>user=alice\<close> creates a
  session: the payload is assigned under the generated id, its token is the one minted
  for \<open>alice\<close>, and a codec that encodes the user id decodes that token to \<open>alice\<close>.
  For an id other than \<^verbatim>\<open>__proto__\<close> (every generated id) the payload is then the own
  property of that id, and the logged list of connected clients shows \<open>alice\<close> for it.
\<close>

theorem sse_development_user:
  "(authorization req = None \<and> NODE_ENV ctx \<noteq> ''development''
     \<longrightarrow> sse_handler ctx signJwt decode_sub req new_id r ts =
           (ts, Responded \<lparr>status_code = 401, body = Text ''Unauthorized''\<rparr>))
   \<and> (authorization req = None \<and> NODE_ENV ctx = ''development''
       \<and> user req = Some (QString ''alice'')
       \<and> encodes_user signJwt decode_sub (QString ''alice'')
     \<longrightarrow> (\<exists>p log.
            sse_handler ctx signJwt decode_sub req new_id r ts =
              (set_property new_id p ts, Streaming (transport p) log)
            \<and> sessionId (transport p) = new_id
            \<and> decode_sub (currentJwt p) = Some (QString ''alice'')
            \<and> (new_id \<noteq> ''__proto__'' \<longrightarrow>
                 map_of (own (set_property new_id p ts)) new_id = Some p
                 \<and> (new_id, Some (QString ''alice'')) \<in> set log)))"
proof (intro conjI impI)
  assume "authorization req = None \<and> NODE_ENV ctx \<noteq> ''development''"
  then have "credential ctx signJwt req = None"
    by (simp add: credential_def development_user_def split: option.splits)
  then show "sse_handler ctx signJwt decode_sub req new_id r ts =
           (ts, Responded \<lparr>status_code = 401, body = Text ''Unauthorized''\<rparr>)"
    by (simp add: sse_handler_def)
next
  let ?p = "\<lparr>transport = new_transport new_id r, currentJwt = signJwt (QString ''alice'')\<rparr>"
  let ?log = "connected_clients decode_sub (set_property new_id ?p ts)"
  assume a: "authorization req = None \<and> NODE_ENV ctx = ''development''
       \<and> user req = Some (QString ''alice'')
       \<and> encodes_user signJwt decode_sub (QString ''alice'')"
  then have "credential ctx signJwt req = Some (signJwt (QString ''alice''))"
    by (simp add: credential_def development_user_def)
  then have handled: "sse_handler ctx signJwt decode_sub req new_id r ts =
      (set_property new_id ?p ts, Streaming (transport ?p) ?log)"
    by (simp add: sse_handler_def Let_def)
  from a have decoded: "decode_sub (currentJwt ?p) = Some (QString ''alice'')"
    by (simp add: encodes_user_def)
  have stored: "map_of (own (set_property new_id ?p ts)) new_id = Some ?p"
    if "new_id \<noteq> ''__proto__''"
    using that by (simp add: set_property_def map_of_assign_own)
  have logged: "(new_id, Some (QString ''alice'')) \<in> set ?log"
    if "new_id \<noteq> ''__proto__''"
  proof -
    from that have "(new_id, ?p) \<in> set (own (set_property new_id ?p ts))"
      by (simp add: set_property_def assign_own_member)
    then have "(new_id, decode_sub (currentJwt ?p)) \<in> set ?log"
      by (rule connected_clients_member)
    with decoded show ?thesis by simp
  qed
  from handled decoded stored logged
  show "\<exists>p log.
            sse_handler ctx signJwt decode_sub req new_id r ts =
              (set_property new_id p ts, Streaming (transport p) log)
            \<and> sessionId (transport p) = new_id
            \<and> decode_sub (currentJwt p) = Some (QString ''alice'')
            \<and> (new_id \<noteq> ''__proto__'' \<longrightarrow>
                 map_of (own (set_property new_id p ts)) new_id = Some p
                 \<and> (new_id, Some (QString ''alice'')) \<in> set log)"
    by (intro exI [of _ ?p] exI [of _ ?log]) simp
qed


text \<open>With the codec whose token is the user id itself, read back as it stands.\<close>

theorem sse_development_user_witness:
  "NODE_ENV \<lparr>NODE_ENV = ''production'', integrations = [], extraTools = []\<rparr> \<noteq> ''development''
   \<and> sse_handler \<lparr>NODE_ENV = ''production'', integrations = [], extraTools = []\<rparr>
        to_string (Some \<circ> QString)
        \<lparr>authorization = None, user = Some (QString ''alice'')\<rparr> ''s1'' 1 empty_transports
      = (empty_transports, Responded \<lparr>status_code = 401, body = Text ''Unauthorized''\<rparr>)
   \<and> encodes_user to_string (Some \<circ> QString) (QString ''alice'')
   \<and> ''s1'' \<noteq> ''__proto__''
   \<and> sse_handler \<lparr>NODE_ENV = ''development'', integrations = [], extraTools = []\<rparr>
        to_string (Some \<circ> QString)
        \<lparr>authorization = None, user = Some (QString ''alice'')\<rparr> ''s1'' 1 empty_transports
      = (\<lparr>own = [(''s1'', \<lparr>transport = new_transport ''s1'' 1, currentJwt = ''alice''\<rparr>)], proto = None\<rparr>,
         Streaming (new_transport ''s1'' 1) [(''s1'', Some (QString ''alice''))])"
  (is "?h1 \<and> ?c1 \<and> ?h2 \<and> ?h3 \<and> ?c2")
proof -
  have h1: ?h1 and h2: ?h2 and h3: ?h3
    by (simp_all add: encodes_user_def)
  from h1 sse_development_user [where ctx = "\<lparr>NODE_ENV = ''production'', integrations = [], extraTools = []\<rparr>"
      and req = "\<lparr>authorization = None, user = Some (QString ''alice'')\<rparr>"
      and signJwt = to_string and decode_sub = "Some \<circ> QString" and new_id = "''s1''" and r = 1
      and ts = empty_transports]
  have c1: ?c1
    by simp
  from h2 sse_development_user [where ctx = "\<lparr>NODE_ENV = ''development'', integrations = [], extraTools = []\<rparr>"
      and req = "\<lparr>authorization = None, user = Some (QString ''alice'')\<rparr>"
      and signJwt = to_string and decode_sub = "Some \<circ> QString" and new_id = "''s1''" and r = 1
      and ts = empty_transports]
  obtain p log where
    "sse_handler \<lparr>NODE_ENV = ''development'', integrations = [], extraTools = []\<rparr>
        to_string (Some \<circ> QString)
        \<lparr>authorization = None, user = Some (QString ''alice'')\<rparr> ''s1'' 1 empty_transports
      = (set_property ''s1'' p empty_transports, Streaming (transport p) log)"
    by auto
  then have c2: ?c2
    by (auto simp: sse_handler_def credential_def development_user_def Let_def set_property_def
        empty_transports_def connected_clients_def)
  from h1 c1 h2 h3 c2 show ?thesis
    by blast
qed

text \<open>
  C10 (as amended): in development mode, with a truthy \<^verbatim>\<open>user\<close> parameter (a non-empty
  string, an array or an object), the request is admitted through the development
  path whenever the \<^verbatim>\<open>Bearer \<close> prefix check fails, with the header absent or present
  without the prefix alike: the token minted for the user is stored, and no 401 is sent.
\<close>

theorem sse_development_fallback:
  assumes "NODE_ENV ctx = ''development''"
    and "user req = Some u" and "truthy (Some u)"
    and "\<forall>h. authorization req = Some h \<longrightarrow> \<not> startsWith h ''Bearer ''"
  shows "sse_handler ctx signJwt decode_sub req new_id r ts =
           (set_property new_id
              \<lparr>transport = new_transport new_id r, currentJwt = signJwt u\<rparr> ts,
            Streaming (new_transport new_id r)
              (connected_clients decode_sub
                 (set_property new_id
                    \<lparr>transport = new_transport new_id r, currentJwt = signJwt u\<rparr> ts)))"
proof -
  from assms(4) have "credential ctx signJwt req = development_user ctx signJwt req"
    by (rule credential_no_bearer)
  also from assms(1-3) have "\<dots> = Some (signJwt u)"
    by (simp add: development_user_def)
  finally show ?thesis
    by (simp add: sse_handler_def Let_def)
qed

text \<open>A \<^verbatim>\<open>Basic\<close> header with \<^verbatim>\<open>user=bob\<close>.\<close>

theorem sse_development_fallback_witness:
  "truthy (Some (QString ''bob'')) \<and> \<not> startsWith ''Basic abc'' ''Bearer ''
   \<and> sse_handler \<lparr>NODE_ENV = ''development'', integrations = [], extraTools = []\<rparr>
        to_string (Some \<circ> QString)
        \<lparr>authorization = Some ''Basic abc'', user = Some (QString ''bob'')\<rparr> ''s1'' 1 empty_transports
      = (\<lparr>own = [(''s1'', \<lparr>transport = new_transport ''s1'' 1, currentJwt = ''bob''\<rparr>)], proto = None\<rparr>,
         Streaming (new_transport ''s1'' 1) [(''s1'', Some (QString ''bob''))])"
  using sse_development_fallback [where ctx = "\<lparr>NODE_ENV = ''development'', integrations = [], extraTools = []\<rparr>"
      and req = "\<lparr>authorization = Some ''Basic abc'', user = Some (QString ''bob'')\<rparr>"
      and u = "QString ''bob''" and signJwt = to_string and decode_sub = "Some \<circ> QString"
      and new_id = "''s1''" and r = 1 and ts = empty_transports]
  by (simp add: startsWith_def set_property_def empty_transports_def connected_clients_def)

text \<open>
  C10 as stated fails for a \<^verbatim>\<open>user\<close> parameter that is carried but empty
  (\<^verbatim>\<open>GET /sse?user=\<close>): the empty string is falsy, and the request is answered 401.
\<close>

theorem sse_empty_user_counterexample:
  "sse_handler \<lparr>NODE_ENV = ''development'', integrations = [], extraTools = []\<rparr>
     to_string (map_of [])
     \<lparr>authorization = Some ''Basic abc'', user = Some (QString '''')\<rparr>
     ''6fa459ea-ee8a-4ca4-894e-db77e160355e'' 1 empty_transports
   = (empty_transports, Responded \<lparr>status_code = 401, body = Text ''Unauthorized''\<rparr>)"
  by (simp add: sse_handler_def credential_def development_user_def startsWith_def)

section \<open>Routing at \<^verbatim>\<open>POST /messages\<close>\<close>

lemma truthy_nonempty_key: "to_string v \<noteq> [] \<Longrightarrow> truthy (Some v)"
  by (cases v) simp_all

lemma messages_keeps_registry:
  "fst (messages_handler handlePostMessage session_id transports) = transports"
  by (simp add: messages_handler_def guarded_delegation_def delegate_def Let_def
      split: option.splits property_value.splits prod.splits)

lemma message_unknown_session:
  assumes "\<not> truthy session_id
           \<or> \<not> truthy_value (get_property transports (property_key session_id))"
  shows "messages_handler handlePostMessage session_id transports
         = (transports, \<lparr>delegated = [], sent = [no_transport_found]\<rparr>)"
  using assms by (auto simp: messages_handler_def guarded_delegation_def Let_def)

lemma message_error_response:
  assumes "session_id = Some v" and "to_string v \<noteq> []"
    and "map_of (own transports) (to_string v) = Some p"
    and "raised (handlePostMessage (transport p)) = Some err"
  shows "sent (snd (messages_handler handlePostMessage session_id transports)) =
           (if headersSent (handlePostMessage (transport p)) then [no_transport_found]
            else [\<lparr>status_code = 500, body = Text (error_text err)\<rparr>])"
proof -
  have "truthy session_id"
    using assms(1,2) by (simp add: truthy_nonempty_key)
  moreover have "get_property transports (property_key session_id) = Payload p"
    using assms(1,3) by (simp add: get_property_def)
  ultimately show ?thesis
    using assms(4) by (simp add: messages_handler_def guarded_delegation_def delegate_def Let_def)
qed



text \<open>
  C3, at the input where the code departs from it: the session is registered, its
  transport has already written a response head and then throws (as the SSE
  transport does when its stream is not established). The \<^verbatim>\<open>catch\<close> block sends
  nothing, control leaves the \<^verbatim>\<open>if\<close>, and the handler goes on to send the 404 of
  line 103 on the response the transport has answered.
\<close>

theorem message_second_response:
  "messages_handler
     (\<lambda>t. \<lparr>headersSent = True, raised = Some (Error ''SSE connection not established'')\<rparr>)
     (Some (QString ''6fa459ea-ee8a-4ca4-894e-db77e160355e''))
     \<lparr>own = [(''6fa459ea-ee8a-4ca4-894e-db77e160355e'',
               \<lparr>transport = new_transport ''6fa459ea-ee8a-4ca4-894e-db77e160355e'' 1, currentJwt = ''t''\<rparr>)],
      proto = None\<rparr>
   = (\<lparr>own = [(''6fa459ea-ee8a-4ca4-894e-db77e160355e'',
               \<lparr>transport = new_transport ''6fa459ea-ee8a-4ca4-894e-db77e160355e'' 1, currentJwt = ''t''\<rparr>)],
       proto = None\<rparr>,
      \<lparr>delegated = [new_transport ''6fa459ea-ee8a-4ca4-894e-db77e160355e'' 1],
       sent = [\<lparr>status_code = 404,
                body = Json [(''error'', JString ''No transport found for sessionId'')]\<rparr>]\<rparr>)"
  by (simp add: messages_handler_def guarded_delegation_def delegate_def get_property_def
      no_transport_found_def)

text \<open>
  C6, at the input where the code departs from it: no session is registered, and the
  request names \<^verbatim>\<open>constructor\<close> as its session. \<^verbatim>\<open>transports["constructor"]\<close> is the
  function inherited from \<^verbatim>\<open>Object.prototype\<close>, which is truthy, so the handler
  enters the delegation; reading \<^verbatim>\<open>handlePostMessage\<close> of its missing \<^verbatim>\<open>transport\<close>
  throws, and the handler answers 500 with the message of that \<^verbatim>\<open>TypeError\<close>, not 404.
\<close>

theorem message_inherited_key:
  "messages_handler handlePostMessage (Some (QString ''constructor'')) empty_transports
   = (empty_transports,
      \<lparr>delegated = [],
       sent = [\<lparr>status_code = 500,
                body = Text (''Cannot read properties of undefined (reading ''
                             @ [CHR 0x27] @ ''handlePostMessage'' @ [CHR 0x27] @ '')'')\<rparr>]\<rparr>)"
  by (simp add: messages_handler_def guarded_delegation_def delegate_def get_property_def
      empty_transports_def object_prototype_keys_def undefined_transport_def)

section \<open>Session removal\<close>

text \<open>
  C8: removing a session is idempotent. Running the close hook twice for the same id
  leaves the registry as running it once does; for an id that is not registered the
  hook changes nothing (and the model has no failing branch, as \<^verbatim>\<open>delete\<close> has none);
  in particular the hook changes nothing after a shutdown that emptied the registry.
\<close>

theorem removal_idempotent:
  "on_close key (on_close key ts) = on_close key ts
   \<and> (key \<notin> set (object_keys ts) \<longrightarrow> on_close key ts = ts)
   \<and> (ended (snd (handleShutdown close server_close during ts)) = Exit 0 \<longrightarrow>
        on_close key (fst (handleShutdown close server_close during ts)) =
        fst (handleShutdown close server_close during ts))"
proof -
  have twice: "on_close key (on_close key ts) = on_close key ts"
    by (simp add: on_close_def delete_property_def)
  have absent: "key \<notin> set (object_keys ts) \<longrightarrow> on_close key ts = ts"
    by (simp add: on_close_def delete_absent)
  have drained: "on_close key (fst (handleShutdown close server_close during ts)) =
      fst (handleShutdown close server_close during ts)"
    if "ended (snd (handleShutdown close server_close during ts)) = Exit 0"
  proof -
    from that have "own (fst (handleShutdown close server_close during ts)) = []"
      by (rule shutdown_exit_empties)
    then have "key \<notin> set (object_keys (fst (handleShutdown close server_close during ts)))"
      by (simp add: object_keys_def)
    then show ?thesis by (simp add: on_close_def delete_absent)
  qed
  from twice absent drained show ?thesis by blast
qed

text \<open>The hook of an unknown id \<open>b\<close> on a registry holding \<open>a\<close>, and the hook of \<open>a\<close>
  after a shutdown during which it had already fired.\<close>

theorem removal_idempotent_witness:
  "''b'' \<notin> set (object_keys
      \<lparr>own = [(''a'', \<lparr>transport = new_transport ''a'' 1, currentJwt = ''t''\<rparr>)], proto = None\<rparr>)
   \<and> on_close ''b''
        \<lparr>own = [(''a'', \<lparr>transport = new_transport ''a'' 1, currentJwt = ''t''\<rparr>)], proto = None\<rparr>
      = \<lparr>own = [(''a'', \<lparr>transport = new_transport ''a'' 1, currentJwt = ''t''\<rparr>)], proto = None\<rparr>
   \<and> ended (snd (handleShutdown (\<lambda>t. None) None [Disconnect ''a'']
        \<lparr>own = [(''a'', \<lparr>transport = new_transport ''a'' 1, currentJwt = ''t''\<rparr>)], proto = None\<rparr>))
      = Exit 0
   \<and> on_close ''a'' (fst (handleShutdown (\<lambda>t. None) None [Disconnect ''a'']
        \<lparr>own = [(''a'', \<lparr>transport = new_transport ''a'' 1, currentJwt = ''t''\<rparr>)], proto = None\<rparr>))
      = \<lparr>own = [], proto = None\<rparr>"
  using removal_idempotent [where key = "''b''" and close = "\<lambda>t. None" and server_close = None
      and during = "[Disconnect ''a'']"
      and ts = "\<lparr>own = [(''a'', \<lparr>transport = new_transport ''a'' 1, currentJwt = ''t''\<rparr>)], proto = None\<rparr>"]
    removal_idempotent [where key = "''a''" and close = "\<lambda>t. None" and server_close = None
      and during = "[Disconnect ''a'']"
      and ts = "\<lparr>own = [(''a'', \<lparr>transport = new_transport ''a'' 1, currentJwt = ''t''\<rparr>)], proto = None\<rparr>"]
  by (simp add: object_keys_def object_values_def handleShutdown_def List.map_filter_def
      on_close_def delete_property_def delete_all_def for_in_keys_def)

section \<open>Health report\<close>

text \<open>
  C9: the health handler answers 200 with a JSON object of the eight fields status,
  timestamp, uptime, version, environment, activeConnections, integrations and tools;
  activeConnections is the number of own entries of \<^verbatim>\<open>transports\<close> (3 after three
  sessions were connected), and the registry is returned as it was.
\<close>

theorem health_reports_sessions:
  "fst (health_handler ctx now up ts) = ts
   \<and> status_code (snd (health_handler ctx now up ts)) = 200
   \<and> body (snd (health_handler ctx now up ts)) =
       Json [(''status'', JString ''healthy''),
             (''timestamp'', JString now),
             (''uptime'', JNumber up),
             (''version'', JString ''1.0.0''),
             (''environment'', JString (NODE_ENV ctx)),
             (''activeConnections'', JCount (length (own ts))),
             (''integrations'', JCount (length (integrations ctx))),
             (''tools'', JCount (length (extraTools ctx)))]
   \<and> (\<exists>fields.
        body (snd (health_handler ctx now up (run [Connect ''a'' pa, Connect ''b'' pb, Connect ''c'' pc])))
          = Json fields
        \<and> map_of fields ''activeConnections'' = Some (JCount 3))"
  by (simp add: health_handler_def object_keys_def run_def set_property_def empty_transports_def)

section \<open>Shutdown\<close>

text \<open>
  C2 (as amended): whatever sessions are registered when the handler runs (none, one
  or many), \<^verbatim>\<open>close\<close> is called on the transport of each registered session, once and
  in the order of registration, also when one of the calls fails. When every close
  and the close of the protocol server succeed, the registry is empty afterwards,
  whatever other handlers wrote to it in between, and the process exits with code 0.
\<close>

theorem shutdown_closes_every_session:
  "close_calls (snd (handleShutdown close server_close during ts)) =
     map transport (object_values ts)
   \<and> ((\<forall>t \<in> set (map transport (object_values ts)). close t = None) \<and> server_close = None
      \<longrightarrow> object_keys (fst (handleShutdown close server_close during ts)) = []
          \<and> server_closed (snd (handleShutdown close server_close during ts))
          \<and> ended (snd (handleShutdown close server_close during ts)) = Exit 0)"
proof (intro conjI impI)
  show "close_calls (snd (handleShutdown close server_close during ts)) =
          map transport (object_values ts)"
    by (rule shutdown_close_calls)
next
  assume ok: "(\<forall>t \<in> set (map transport (object_values ts)). close t = None) \<and> server_close = None"
  then have "List.map_filter close (map transport (object_values ts)) = []"
    by (intro map_filter_all_None) simp
  with ok have completed: "handleShutdown close server_close during ts =
      (delete_all (foldl apply_op ts during),
       \<lparr>close_calls = map transport (object_values ts), server_closed = True, ended = Exit 0\<rparr>)"
    by (simp add: handleShutdown_def Let_def)
  show "object_keys (fst (handleShutdown close server_close during ts)) = []"
    by (simp add: completed object_keys_def own_delete_all)
  show "server_closed (snd (handleShutdown close server_close during ts))"
    by (simp add: completed)
  show "ended (snd (handleShutdown close server_close during ts)) = Exit 0"
    by (simp add: completed)
qed


text \<open>Two sessions whose transports close, one of them disconnecting meanwhile.\<close>

theorem shutdown_closes_every_session_witness:
  "map (\<lambda>t. None :: thrown option) [new_transport ''A'' 1, new_transport ''B'' 2] = [None, None]
   \<and> handleShutdown (\<lambda>t. None) None [Disconnect ''A'']
        \<lparr>own = [(''A'', \<lparr>transport = new_transport ''A'' 1, currentJwt = ''ta''\<rparr>),
                (''B'', \<lparr>transport = new_transport ''B'' 2, currentJwt = ''tb''\<rparr>)],
         proto = None\<rparr>
      = (\<lparr>own = [], proto = None\<rparr>,
         \<lparr>close_calls = [new_transport ''A'' 1, new_transport ''B'' 2],
          server_closed = True, ended = Exit 0\<rparr>)"
  using shutdown_closes_every_session [where close = "\<lambda>t. None" and server_close = None
      and during = "[Disconnect ''A'']"
      and ts = "\<lparr>own = [(''A'', \<lparr>transport = new_transport ''A'' 1, currentJwt = ''ta''\<rparr>),
                (''B'', \<lparr>transport = new_transport ''B'' 2, currentJwt = ''tb''\<rparr>)],
         proto = None\<rparr>"]
  by (simp add: handleShutdown_def object_values_def List.map_filter_def on_close_def
      delete_property_def delete_all_def for_in_keys_def object_keys_def)

text \<open>
  C2 as stated fails when a close fails: with two sessions of which the first one's
  \<^verbatim>\<open>close\<close> rejects, both transports have been closed, but the rejection leaves the
  handler at its first \<^verbatim>\<open>await\<close>: the server is not closed, both sessions are still
  registered, and \<^verbatim>\<open>process.exit(0)\<close> is not reached.
\<close>

theorem shutdown_close_failure_counterexample:
  "handleShutdown (map_of [(new_transport ''A'' 1, Error ''close failed'')]) None []
     \<lparr>own = [(''A'', \<lparr>transport = new_transport ''A'' 1, currentJwt = ''ta''\<rparr>),
             (''B'', \<lparr>transport = new_transport ''B'' 2, currentJwt = ''tb''\<rparr>)],
      proto = None\<rparr>
   = (\<lparr>own = [(''A'', \<lparr>transport = new_transport ''A'' 1, currentJwt = ''ta''\<rparr>),
              (''B'', \<lparr>transport = new_transport ''B'' 2, currentJwt = ''tb''\<rparr>)],
       proto = None\<rparr>,
      \<lparr>close_calls = [new_transport ''A'' 1, new_transport ''B'' 2],
       server_closed = False, ended = Unhandled_rejection (Error ''close failed'')\<rparr>)"
  by (simp add: handleShutdown_def object_values_def List.map_filter_def)

section \<open>The registry along a sequence of operations\<close>

text \<open>The handlers write the registry through the three operations only: an admitted
  connection is a \<open>Connect\<close>, and a shutdown that completes ends with a \<open>Drain\<close>.\<close>

lemma sse_handler_registry:
  "fst (sse_handler ctx signJwt decode_sub req new_id r ts) =
     (case credential ctx signJwt req of
        None \<Rightarrow> ts
      | Some token \<Rightarrow>
          apply_op ts
            (Connect new_id
               \<lparr>transport = new_transport new_id r, currentJwt = token\<rparr>))"
  by (simp add: sse_handler_def Let_def split: option.splits)

lemma shutdown_registry:
  "ended (snd (handleShutdown close server_close during ts)) = Exit 0 \<Longrightarrow>
   fst (handleShutdown close server_close during ts) = foldl apply_op ts (during @ [Drain])"
  by (auto simp: handleShutdown_def Let_def split: list.splits option.splits)

lemma connected_ids_fresh:
  "generated_from seen ops \<Longrightarrow> set (connected_ids ops) \<inter> set seen = {} \<and> distinct (connected_ids ops)"
  by (induction seen ops rule: generated_from.induct) auto

lemma removed_ids_known:
  "generated_from seen ops \<Longrightarrow> set (removed_ids seen ops) \<subseteq> set seen \<union> set (connected_ids ops)"
  by (induction seen ops rule: generated_from.induct) auto

lemma keys_after:
  "generated_from seen ops \<Longrightarrow> set (object_keys ts) \<subseteq> set seen \<Longrightarrow> distinct (object_keys ts) \<Longrightarrow>
   set (object_keys (foldl apply_op ts ops)) =
     (set (object_keys ts) \<union> set (connected_ids ops)) - set (removed_ids seen ops)
   \<and> distinct (object_keys (foldl apply_op ts ops))"
proof (induction seen ops arbitrary: ts rule: generated_from.induct)
  case (1 seen)
  then show ?case by simp
next
  case (2 seen sid p ops)
  from "2.prems" have fresh: "sid \<notin> set (object_keys ts)" "sid \<noteq> ''__proto__''"
    by auto
  then have keys: "object_keys (set_property sid p ts) = object_keys ts @ [sid]"
    by (simp add: keys_set_property)
  from "2.prems" have "generated_from (sid # seen) ops"
    by simp
  moreover from "2.prems"(2) keys have "set (object_keys (set_property sid p ts)) \<subseteq> set (sid # seen)"
    by auto
  moreover from "2.prems"(3) keys fresh have "distinct (object_keys (set_property sid p ts))"
    by simp
  ultimately have "set (object_keys (foldl apply_op (set_property sid p ts) ops)) =
      (set (object_keys (set_property sid p ts)) \<union> set (connected_ids ops)) - set (removed_ids (sid # seen) ops)
    \<and> distinct (object_keys (foldl apply_op (set_property sid p ts) ops))"
    by (rule "2.IH")
  with keys show ?case by auto
next
  case (3 seen sid ops)
  from "3.prems" have gen: "generated_from seen ops" and known: "sid \<in> set seen"
    by simp_all
  from gen known have later: "sid \<notin> set (connected_ids ops)"
    using connected_ids_fresh [of seen ops] by auto
  have keys: "object_keys (on_close sid ts) = filter (\<lambda>k. k \<noteq> sid) (object_keys ts)"
    by (rule keys_on_close)
  from "3.prems"(2) keys have "set (object_keys (on_close sid ts)) \<subseteq> set seen"
    by auto
  moreover from "3.prems"(3) keys have "distinct (object_keys (on_close sid ts))"
    by simp
  ultimately have "set (object_keys (foldl apply_op (on_close sid ts) ops)) =
      (set (object_keys (on_close sid ts)) \<union> set (connected_ids ops)) - set (removed_ids seen ops)
    \<and> distinct (object_keys (foldl apply_op (on_close sid ts) ops))"
    using gen by (intro "3.IH")
  with keys later show ?case by auto
next
  case (4 seen ops)
  from "4.prems" have gen: "generated_from seen ops"
    by simp
  then have later: "set (connected_ids ops) \<inter> set seen = {}"
    using connected_ids_fresh [of seen ops] by simp
  have keys: "object_keys (delete_all ts) = []"
    by (rule keys_delete_all)
  then have "set (object_keys (foldl apply_op (delete_all ts) ops)) =
      (set (object_keys (delete_all ts)) \<union> set (connected_ids ops)) - set (removed_ids seen ops)
    \<and> distinct (object_keys (foldl apply_op (delete_all ts) ops))"
    using gen by (intro "4.IH") simp_all
  with keys later "4.prems"(2) show ?case by auto
qed

text \<open>
  C4: along every sequence of connects, disconnects and drains in which the session
  ids are as the transport generates them (each one new), the number of registered
  sessions is the number of sessions connected minus the number of sessions
  disconnected or drained; the latter never exceeds the former, so the difference is
  not negative; no id is registered twice; and right after a drain the count is 0.
\<close>

theorem registry_count:
  assumes "generated_from [] ops"
  shows "length (object_keys (run ops)) = length (connected_ids ops) - card (set (removed_ids [] ops))
         \<and> card (set (removed_ids [] ops)) \<le> length (connected_ids ops)
         \<and> distinct (object_keys (run ops))
         \<and> object_keys (run (ops @ [Drain])) = []"
proof -
  have start: "set (object_keys empty_transports) \<subseteq> set []" "distinct (object_keys empty_transports)"
    by (simp_all add: object_keys_def empty_transports_def)
  from keys_after [OF assms start]
  have keys: "set (object_keys (run ops)) = set (connected_ids ops) - set (removed_ids [] ops)"
    and dist: "distinct (object_keys (run ops))"
    by (simp_all add: run_def object_keys_def empty_transports_def)
  from assms have sub: "set (removed_ids [] ops) \<subseteq> set (connected_ids ops)"
    using removed_ids_known [of "[]" ops] by simp
  from assms have dc: "distinct (connected_ids ops)"
    using connected_ids_fresh [of "[]" ops] by simp
  have "length (object_keys (run ops)) = card (set (object_keys (run ops)))"
    using dist by (simp add: distinct_card)
  also have "\<dots> = card (set (connected_ids ops)) - card (set (removed_ids [] ops))"
    using sub by (simp add: keys card_Diff_subset)
  also have "\<dots> = length (connected_ids ops) - card (set (removed_ids [] ops))"
    using dc by (simp add: distinct_card)
  finally have count: "length (object_keys (run ops)) =
      length (connected_ids ops) - card (set (removed_ids [] ops))" .
  have "card (set (removed_ids [] ops)) \<le> card (set (connected_ids ops))"
    using sub by (simp add: card_mono)
  then have bound: "card (set (removed_ids [] ops)) \<le> length (connected_ids ops)"
    using dc by (simp add: distinct_card)
  have drained: "object_keys (run (ops @ [Drain])) = []"
    by (simp add: run_def keys_delete_all)
  from count bound dist drained show ?thesis by simp
qed

text \<open>Three sessions, of which the first disconnects and the second is drained; the
  third connects afterwards and is the one that remains.\<close>

theorem registry_count_witness:
  "generated_from []
     [Connect ''a'' \<lparr>transport = new_transport ''a'' 1, currentJwt = ''ta''\<rparr>,
      Connect ''b'' \<lparr>transport = new_transport ''b'' 2, currentJwt = ''tb''\<rparr>,
      Disconnect ''a'', Drain,
      Connect ''c'' \<lparr>transport = new_transport ''c'' 3, currentJwt = ''tc''\<rparr>]
   \<and> length (object_keys (run
     [Connect ''a'' \<lparr>transport = new_transport ''a'' 1, currentJwt = ''ta''\<rparr>,
      Connect ''b'' \<lparr>transport = new_transport ''b'' 2, currentJwt = ''tb''\<rparr>,
      Disconnect ''a'', Drain,
      Connect ''c'' \<lparr>transport = new_transport ''c'' 3, currentJwt = ''tc''\<rparr>])) = 3 - 2"
  (is "generated_from [] ?ops \<and> _")
  using registry_count [of ?ops]
  by (simp add: run_def set_property_def empty_transports_def on_close_def delete_property_def
      delete_all_def for_in_keys_def object_keys_def card_insert_if)

end
